theory Spec2Isabelle
  imports Complex_Main "HOL-Library.Log_Nat"
begin

section \<open>Python values\<close>

text \<open>
  \<^verbatim>\<open>parse_comfyui_metadata\<close> of \<^verbatim>\<open>metadata_extractor.py\<close> receives the
  record the loaders built with \<^verbatim>\<open>json.loads\<close>: a dictionary with string keys whose
  values are \<^verbatim>\<open>None\<close>, booleans, integers, floats, strings, lists and dictionaries
  with string keys. A dictionary is an association list in insertion order (the order
  \<^verbatim>\<open>.items()\<close> iterates in); Python's dictionaries have no repeated key, which
  \<open>wf_pyval\<close> states.

  A finite float is the rational number it denotes (every double is one), with the
  negative zero, the infinities and the NaN beside it.
\<close>

datatype pyfloat = Finite rat | NegZero | PosInf | NegInf | NaN

datatype pyval =
    PNone
  | PBool bool
  | PInt int
  | PFloat pyfloat
  | PStr string
  | PList "pyval list"
  | PDict "(string \<times> pyval) list"

type_synonym pydict = "(string \<times> pyval) list"


text \<open>
  The exceptions the function can meet. All but \<open>KeyboardInterrupt\<close> derive from
  \<^verbatim>\<open>Exception\<close>, which is what the handler of line 256 catches.
\<close>

datatype pyexc =
  TypeError | ValueError | AttributeError | KeyError | IndexError | OverflowError
  | KeyboardInterrupt

fun is_Exception :: "pyexc \<Rightarrow> bool" where
  "is_Exception KeyboardInterrupt = False"
| "is_Exception e = True"

section \<open>The builtins the function calls\<close>

subsection \<open>Truth value, membership, subscription\<close>

fun truthy :: "pyval \<Rightarrow> bool" where
  "truthy PNone = False"
| "truthy (PBool b) = b"
| "truthy (PInt n) = (n \<noteq> 0)"
| "truthy (PFloat f) = (f \<noteq> Finite 0 \<and> f \<noteq> NegZero)"
| "truthy (PStr s) = (s \<noteq> [])"
| "truthy (PList xs) = (xs \<noteq> [])"
| "truthy (PDict kvs) = (kvs \<noteq> [])"

fun is_substring :: "string \<Rightarrow> string \<Rightarrow> bool" where
  "is_substring k [] = (k = [])"
| "is_substring k (c # cs) = (take (length k) (c # cs) = k \<or> is_substring k cs)"

text \<open>\<^verbatim>\<open>k in x\<close> for a string \<open>k\<close>: a key of a dictionary, an element of a
  list, a substring of a string; the other values are not iterable.\<close>

fun py_contains :: "pyval \<Rightarrow> string \<Rightarrow> pyexc + bool" where
  "py_contains (PDict kvs) k = Inr (map_of kvs k \<noteq> None)"
| "py_contains (PList xs) k = Inr (PStr k \<in> set xs)"
| "py_contains (PStr s) k = Inr (is_substring k s)"
| "py_contains v k = Inl TypeError"

text \<open>\<^verbatim>\<open>x[k]\<close> for a string \<open>k\<close>.\<close>

fun py_getitem :: "pyval \<Rightarrow> string \<Rightarrow> pyexc + pyval" where
  "py_getitem (PDict kvs) k = (case map_of kvs k of None \<Rightarrow> Inl KeyError | Some v \<Rightarrow> Inr v)"
| "py_getitem v k = Inl TypeError"

text \<open>\<^verbatim>\<open>x[0]\<close>.\<close>

fun py_first :: "pyval \<Rightarrow> pyexc + pyval" where
  "py_first (PList xs) = (case xs of [] \<Rightarrow> Inl IndexError | x # _ \<Rightarrow> Inr x)"
| "py_first (PStr s) = (case s of [] \<Rightarrow> Inl IndexError | c # _ \<Rightarrow> Inr (PStr [c]))"
| "py_first (PDict kvs) = Inl KeyError"
| "py_first v = Inl TypeError"

text \<open>\<^verbatim>\<open>x.get(k, d)\<close>: only dictionaries have the method.\<close>

fun py_get :: "pyval \<Rightarrow> string \<Rightarrow> pyval \<Rightarrow> pyexc + pyval" where
  "py_get (PDict kvs) k d = Inr (case map_of kvs k of None \<Rightarrow> d | Some v \<Rightarrow> v)"
| "py_get v k d = Inl AttributeError"

text \<open>\<^verbatim>\<open>len(x)\<close> and \<^verbatim>\<open>x.items()\<close>.\<close>

fun py_len :: "pyval \<Rightarrow> pyexc + nat" where
  "py_len (PStr s) = Inr (length s)"
| "py_len (PList xs) = Inr (length xs)"
| "py_len (PDict kvs) = Inr (length kvs)"
| "py_len v = Inl TypeError"

fun py_items :: "pyval \<Rightarrow> pyexc + pydict" where
  "py_items (PDict kvs) = Inr kvs"
| "py_items v = Inl AttributeError"

subsection \<open>Numbers from strings\<close>

definition is_py_space :: "char \<Rightarrow> bool" where
  "is_py_space c = (of_char c \<in> {9, 10, 11, 12, 13, 28, 29, 30, 31, 32, 133, 160 :: nat})"

definition py_strip :: "string \<Rightarrow> string" where
  "py_strip s = rev (dropWhile is_py_space (rev (dropWhile is_py_space s)))"

definition is_digit :: "char \<Rightarrow> bool" where
  "is_digit c = (48 \<le> (of_char c :: nat) \<and> (of_char c :: nat) \<le> 57)"

definition digit_val :: "char \<Rightarrow> nat" where
  "digit_val c = of_char c - 48"

definition nat_of_digits :: "string \<Rightarrow> nat" where
  "nat_of_digits ds = foldl (\<lambda>a c. 10 * a + digit_val c) 0 ds"

text \<open>A run of digits in which single underscores may stand between two digits; the
  result is the digits alone. The flag says that the character before was a digit.\<close>

fun digit_group :: "bool \<Rightarrow> string \<Rightarrow> string option" where
  "digit_group prev [] = (if prev then Some [] else None)"
| "digit_group prev (c # cs) =
     (if is_digit c then map_option ((#) c) (digit_group True cs)
      else if c = CHR ''_'' \<and> prev then digit_group False cs
      else None)"

definition split_sign :: "string \<Rightarrow> bool \<times> string" where
  "split_sign s = (case s of
       c # cs \<Rightarrow> if c = CHR ''-'' then (True, cs) else if c = CHR ''+'' then (False, cs) else (False, s)
     | [] \<Rightarrow> (False, s))"

definition int_of_string :: "string \<Rightarrow> int option" where
  "int_of_string s =
     (case split_sign (py_strip s) of (neg, body) \<Rightarrow>
        (case digit_group False body of
           None \<Rightarrow> None
         | Some ds \<Rightarrow> Some (if neg then - int (nat_of_digits ds) else int (nat_of_digits ds))))"

subsection \<open>Rounding to a double\<close>

definition pow2 :: "int \<Rightarrow> rat" where
  "pow2 e = (if 0 \<le> e then 2 ^ nat e else 1 / 2 ^ nat (- e))"

definition pow10 :: "int \<Rightarrow> rat" where
  "pow10 e = (if 0 \<le> e then 10 ^ nat e else 1 / 10 ^ nat (- e))"

definition round_half_even :: "rat \<Rightarrow> int" where
  "round_half_even q =
     (let f = \<lfloor>q\<rfloor>; r = q - of_int f
      in if r < 1 / 2 then f else if 1 / 2 < r then f + 1 else if even f then f else f + 1)"

text \<open>For \<open>0 < a\<close>: the \<open>e\<close> with \<open>2 ^ e \<le> a < 2 ^ (e + 1)\<close>.\<close>

definition floor_log2 :: "rat \<Rightarrow> int" where
  "floor_log2 a =
     (case quotient_of a of (p, d) \<Rightarrow>
        let e = bitlen p - bitlen d in if pow2 e \<le> a then e else e - 1)"

text \<open>The double nearest to a rational, ties to even: 53 bits of mantissa, the least
  exponent \<open>-1074\<close>, and an infinity from \<open>2 ^ 1024\<close> on.\<close>

definition round_to_double :: "bool \<Rightarrow> rat \<Rightarrow> pyfloat" where
  "round_to_double neg a =
     (if a = 0 then (if neg then NegZero else Finite 0)
      else
        let e = max (floor_log2 a - 52) (- 1074);
            m = round_half_even (a / pow2 e);
            v = of_int m * pow2 e
        in if 2 ^ 1024 \<le> v then (if neg then NegInf else PosInf)
           else if m = 0 then (if neg then NegZero else Finite 0)
           else Finite (if neg then - v else v))"

definition float_of_int :: "int \<Rightarrow> pyexc + pyfloat" where
  "float_of_int n =
     (case round_to_double (n < 0) (of_int \<bar>n\<bar>) of
        PosInf \<Rightarrow> Inl OverflowError
      | NegInf \<Rightarrow> Inl OverflowError
      | f \<Rightarrow> Inr f)"

definition lower_char :: "char \<Rightarrow> char" where
  "lower_char c = (if 65 \<le> (of_char c :: nat) \<and> (of_char c :: nat) \<le> 90
                   then char_of (of_char c + 32 :: nat) else c)"

text \<open>The decimal literal of \<^verbatim>\<open>float(s)\<close>, sign and white space taken off: digits
  with an optional point and an optional exponent, at least one digit before the
  exponent. The result is the literal's exact value.\<close>

definition exponent_part :: "string \<Rightarrow> int option" where
  "exponent_part s =
     (case s of
        [] \<Rightarrow> Some 0
      | _ # t \<Rightarrow>
          (case split_sign t of (neg, ds) \<Rightarrow>
             (case digit_group False ds of
                None \<Rightarrow> None
              | Some x \<Rightarrow> Some (if neg then - int (nat_of_digits x) else int (nat_of_digits x)))))"

definition optional_digits :: "string \<Rightarrow> string option" where
  "optional_digits s = (if s = [] then Some [] else digit_group False s)"

definition decimal_literal :: "string \<Rightarrow> rat option" where
  "decimal_literal s =
     (let mant = takeWhile (\<lambda>c. c \<noteq> CHR ''e'' \<and> c \<noteq> CHR ''E'') s;
          ex = dropWhile (\<lambda>c. c \<noteq> CHR ''e'' \<and> c \<noteq> CHR ''E'') s;
          ip = takeWhile (\<lambda>c. c \<noteq> CHR ''.'') mant;
          fp = drop 1 (dropWhile (\<lambda>c. c \<noteq> CHR ''.'') mant)
      in case (optional_digits ip, optional_digits fp, exponent_part ex) of
           (Some i, Some f, Some x) \<Rightarrow>
             if i = [] \<and> f = [] then None
             else Some (of_nat (nat_of_digits (i @ f)) * pow10 (x - int (length f)))
         | _ \<Rightarrow> None)"

definition float_of_string :: "string \<Rightarrow> pyfloat option" where
  "float_of_string s =
     (case split_sign (py_strip s) of (neg, body) \<Rightarrow>
        let low = map lower_char body
        in if low = ''inf'' \<or> low = ''infinity'' then Some (if neg then NegInf else PosInf)
           else if low = ''nan'' then Some NaN
           else map_option (round_to_double neg) (decimal_literal body))"

subsection \<open>\<^verbatim>\<open>int(x)\<close> and \<^verbatim>\<open>float(x)\<close>\<close>

fun py_int :: "pyval \<Rightarrow> pyexc + int" where
  "py_int (PInt n) = Inr n"
| "py_int (PBool b) = Inr (if b then 1 else 0)"
| "py_int (PFloat f) =
     (case f of
        Finite q \<Rightarrow> Inr (if q < 0 then - \<lfloor>- q\<rfloor> else \<lfloor>q\<rfloor>)
      | NegZero \<Rightarrow> Inr 0
      | NaN \<Rightarrow> Inl ValueError
      | _ \<Rightarrow> Inl OverflowError)"
| "py_int (PStr s) = (case int_of_string s of None \<Rightarrow> Inl ValueError | Some n \<Rightarrow> Inr n)"
| "py_int v = Inl TypeError"

fun py_float :: "pyval \<Rightarrow> pyexc + pyfloat" where
  "py_float (PFloat f) = Inr f"
| "py_float (PInt n) = float_of_int n"
| "py_float (PBool b) = Inr (Finite (if b then 1 else 0))"
| "py_float (PStr s) = (case float_of_string s of None \<Rightarrow> Inl ValueError | Some f \<Rightarrow> Inr f)"
| "py_float v = Inl TypeError"

subsection \<open>Numbers and strings as text\<close>

fun str_of_nat :: "nat \<Rightarrow> string" where
  "str_of_nat n =
     (if n < 10 then [''0123456789'' ! n]
      else str_of_nat (n div 10) @ [''0123456789'' ! (n mod 10)])"

declare str_of_nat.simps [simp del]

definition str_of_int :: "int \<Rightarrow> string" where
  "str_of_int n = (if n < 0 then CHR ''-'' # str_of_nat (nat (- n)) else str_of_nat (nat n))"

definition hex2 :: "nat \<Rightarrow> string" where
  "hex2 n = [''0123456789abcdef'' ! (n div 16 mod 16), ''0123456789abcdef'' ! (n mod 16)]"

definition str_join :: "string \<Rightarrow> string list \<Rightarrow> string" where
  "str_join sep parts = (case parts of [] \<Rightarrow> [] | p # ps \<Rightarrow> p @ concat (map (\<lambda>x. sep @ x) ps))"

definition pad2 :: "nat \<Rightarrow> string" where
  "pad2 n = (if n < 10 then CHR ''0'' # str_of_nat n else str_of_nat n)"

text \<open>The format \<^verbatim>\<open>.2f\<close> of a float: its exact value rounded to two decimals, ties
  to even, the sign kept.\<close>

fun format_2f :: "pyfloat \<Rightarrow> string" where
  "format_2f (Finite q) =
     (let n = nat (round_half_even (\<bar>q\<bar> * 100))
      in (if q < 0 then ''-'' else []) @ str_of_nat (n div 100) @ ''.'' @ pad2 (n mod 100))"
| "format_2f NegZero = ''-0.00''"
| "format_2f PosInf = ''inf''"
| "format_2f NegInf = ''-inf''"
| "format_2f NaN = ''nan''"

text \<open>For \<open>0 < a\<close>: the \<open>e\<close> with \<open>10 ^ e \<le> a < 10 ^ (e + 1)\<close>.\<close>

definition floor_log10 :: "rat \<Rightarrow> int" where
  "floor_log10 a =
     (let e = (floor_log2 a * 30103) div 100000
      in if pow10 (e + 1) \<le> a then e + 1 else if a < pow10 e then e - 1 else e)"

text \<open>The \<open>k\<close>-digit decimals next to \<open>a\<close> that read back as \<open>a\<close>: the nearer one if
  both do. The result is the digits as a number and the power of ten they are scaled by.\<close>

definition digits_at :: "rat \<Rightarrow> nat \<Rightarrow> (nat \<times> int) option" where
  "digits_at a k =
     (let x = floor_log10 a - int k + 1;
          t = a / pow10 x;
          lo = \<lfloor>t\<rfloor>;
          back = (\<lambda>c. round_to_double False (of_int c * pow10 x) = Finite a);
          near = round_half_even t
      in if back near then Some (nat near, x)
         else if back lo then Some (nat lo, x)
         else if back (lo + 1) then Some (nat (lo + 1), x)
         else None)"

definition shortest_digits :: "rat \<Rightarrow> nat \<times> int" where
  "shortest_digits a =
     (case List.map_filter (digits_at a) [1 ..< 18] of
        d # _ \<Rightarrow> d
      | [] \<Rightarrow> (nat (round_half_even (a / pow10 (floor_log10 a - 16))), floor_log10 a - 16))"

definition strip_zeros :: "string \<Rightarrow> string" where
  "strip_zeros s = rev (dropWhile (\<lambda>c. c = CHR ''0'') (rev s))"

text \<open>\<^verbatim>\<open>repr\<close> of a positive finite float: the shortest digits that read back as the
  float, written with an exponent when the point would stand before the fourth zero
  after it or after the sixteenth digit.\<close>

definition repr_positive :: "rat \<Rightarrow> string" where
  "repr_positive a =
     (case shortest_digits a of (c, x) \<Rightarrow>
        let all = str_of_nat c;
            ds = strip_zeros all;
            n = length ds;
            decpt = int (length all) + x
        in if decpt \<le> - 4 \<or> 16 < decpt then
             take 1 ds @ (if 1 < n then ''.'' @ drop 1 ds else [])
             @ ''e'' @ (if decpt - 1 < 0 then ''-'' else ''+'') @ pad2 (nat \<bar>decpt - 1\<bar>)
           else if decpt \<le> 0 then ''0.'' @ replicate (nat (- decpt)) CHR ''0'' @ ds
           else if int n \<le> decpt then ds @ replicate (nat decpt - n) CHR ''0'' @ ''.0''
           else take (nat decpt) ds @ ''.'' @ drop (nat decpt) ds)"

fun float_repr :: "pyfloat \<Rightarrow> string" where
  "float_repr (Finite q) =
     (if q = 0 then ''0.0'' else if q < 0 then CHR ''-'' # repr_positive (- q) else repr_positive q)"
| "float_repr NegZero = ''-0.0''"
| "float_repr PosInf = ''inf''"
| "float_repr NegInf = ''-inf''"
| "float_repr NaN = ''nan''"

text \<open>\<^verbatim>\<open>repr\<close> of a string: single quotes, unless the string has one and no double
  quote; the backslash, the quote and what is not printable are escaped.\<close>

definition repr_char :: "char \<Rightarrow> char \<Rightarrow> string" where
  "repr_char quote c =
     (let n = (of_char c :: nat)
      in if c = quote \<or> c = CHR 0x5C then [CHR 0x5C, c]
         else if n = 9 then [CHR 0x5C, CHR ''t'']
         else if n = 10 then [CHR 0x5C, CHR ''n'']
         else if n = 13 then [CHR 0x5C, CHR ''r'']
         else if n < 32 \<or> n = 127 \<or> (128 \<le> n \<and> n \<le> 160) \<or> n = 173
           then [CHR 0x5C, CHR ''x''] @ hex2 n
         else [c])"

definition str_repr :: "string \<Rightarrow> string" where
  "str_repr s =
     (let quote = (if CHR 0x27 \<in> set s \<and> CHR 0x22 \<notin> set s then CHR 0x22 else CHR 0x27)
      in quote # concat (map (repr_char quote) s) @ [quote])"

fun py_repr :: "pyval \<Rightarrow> string"
  and py_repr_items :: "pyval list \<Rightarrow> string list"
  and py_repr_pairs :: "pydict \<Rightarrow> string list" where
  "py_repr PNone = ''None''"
| "py_repr (PBool b) = (if b then ''True'' else ''False'')"
| "py_repr (PInt n) = str_of_int n"
| "py_repr (PFloat f) = float_repr f"
| "py_repr (PStr s) = str_repr s"
| "py_repr (PList xs) = ''['' @ str_join '', '' (py_repr_items xs) @ '']''"
| "py_repr (PDict kvs) = ''{'' @ str_join '', '' (py_repr_pairs kvs) @ ''}''"
| "py_repr_items [] = []"
| "py_repr_items (x # xs) = py_repr x # py_repr_items xs"
| "py_repr_pairs [] = []"
| "py_repr_pairs (kv # kvs) = (str_repr (fst kv) @ '': '' @ py_repr (snd kv)) # py_repr_pairs kvs"

text \<open>\<^verbatim>\<open>f"{x}"\<close> is \<^verbatim>\<open>str(x)\<close>, which differs from \<^verbatim>\<open>repr(x)\<close> on a string
  only. \<^verbatim>\<open>f"{x:.2f}"\<close> takes a float or an integer (a boolean is one).\<close>

definition py_str :: "pyval \<Rightarrow> string" where
  "py_str v = (case v of PStr s \<Rightarrow> s | _ \<Rightarrow> py_repr v)"

fun py_format_2f :: "pyval \<Rightarrow> pyexc + string" where
  "py_format_2f (PFloat f) = Inr (format_2f f)"
| "py_format_2f (PInt n) = (case float_of_int n of Inl e \<Rightarrow> Inl e | Inr f \<Rightarrow> Inr (format_2f f))"
| "py_format_2f (PBool b) = Inr (format_2f (Finite (if b then 1 else 0)))"
| "py_format_2f (PStr s) = Inl ValueError"
| "py_format_2f v = Inl TypeError"

subsection \<open>\<^verbatim>\<open>json.dumps(x, indent=2)\<close>\<close>

definition json_char :: "char \<Rightarrow> string" where
  "json_char c =
     (let n = (of_char c :: nat)
      in if c = CHR 0x22 \<or> c = CHR 0x5C then [CHR 0x5C, c]
         else if n = 8 then [CHR 0x5C, CHR ''b'']
         else if n = 9 then [CHR 0x5C, CHR ''t'']
         else if n = 10 then [CHR 0x5C, CHR ''n'']
         else if n = 12 then [CHR 0x5C, CHR ''f'']
         else if n = 13 then [CHR 0x5C, CHR ''r'']
         else if n < 32 \<or> 127 \<le> n then [CHR 0x5C, CHR ''u'', CHR ''0'', CHR ''0''] @ hex2 n
         else [c])"

definition json_string :: "string \<Rightarrow> string" where
  "json_string s = CHR 0x22 # concat (map json_char s) @ [CHR 0x22]"

fun json_float :: "pyfloat \<Rightarrow> string" where
  "json_float PosInf = ''Infinity''"
| "json_float NegInf = ''-Infinity''"
| "json_float NaN = ''NaN''"
| "json_float f = float_repr f"

definition newline_indent :: "nat \<Rightarrow> string" where
  "newline_indent level = CHR 0x0A # replicate (2 * level) CHR '' ''"

text \<open>The encoder at a nesting level: an empty container on one line, the items of
  another each on a line of its own, two blanks deeper.\<close>

fun json_encode :: "nat \<Rightarrow> pyval \<Rightarrow> string"
  and json_encode_items :: "nat \<Rightarrow> pyval list \<Rightarrow> string list"
  and json_encode_pairs :: "nat \<Rightarrow> pydict \<Rightarrow> string list" where
  "json_encode level PNone = ''null''"
| "json_encode level (PBool b) = (if b then ''true'' else ''false'')"
| "json_encode level (PInt n) = str_of_int n"
| "json_encode level (PFloat f) = json_float f"
| "json_encode level (PStr s) = json_string s"
| "json_encode level (PList xs) =
     (if xs = [] then ''[]''
      else ''['' @ newline_indent (Suc level)
           @ str_join ('','' @ newline_indent (Suc level)) (json_encode_items (Suc level) xs)
           @ newline_indent level @ '']'')"
| "json_encode level (PDict kvs) =
     (if kvs = [] then ''{}''
      else ''{'' @ newline_indent (Suc level)
           @ str_join ('','' @ newline_indent (Suc level)) (json_encode_pairs (Suc level) kvs)
           @ newline_indent level @ ''}'')"
| "json_encode_items level [] = []"
| "json_encode_items level (x # xs) = json_encode level x # json_encode_items level xs"
| "json_encode_pairs level [] = []"
| "json_encode_pairs level (kv # kvs) =
     (json_string (fst kv) @ '': '' @ json_encode level (snd kv)) # json_encode_pairs level kvs"

definition json_dumps :: "pydict \<Rightarrow> string" where
  "json_dumps metadata = json_encode 0 (PDict metadata)"

subsection \<open>\<^verbatim>\<open>json.loads(s)\<close>\<close>

text \<open>
  The decoder reads what \<^verbatim>\<open>metadata_json\<close> holds back into a value. It follows the
  scanner of the \<^verbatim>\<open>json\<close> module: white space is blank, tab, line feed and carriage
  return; a string ends at the next quote, has no raw control character and the escapes
  \<^verbatim>\<open>\" \\ \/ \b \f \n \r \t \uXXXX\<close>; a number is an integer part, an optional fraction
  and an optional exponent, an \<^verbatim>\<open>int\<close> when it has neither and a \<^verbatim>\<open>float\<close>
  otherwise; a repeated key of an object keeps its first place and its last value. A
  string here is a list of characters below 256, so an escape \<^verbatim>\<open>\uXXXX\<close> above that
  has no value in the model and the decoder gives \<open>None\<close> for it, as for every text
  \<^verbatim>\<open>json.loads\<close> rejects. The fuel bounds the nesting; the length of the text is enough.
\<close>

definition is_json_ws :: "char \<Rightarrow> bool" where
  "is_json_ws c = (c \<in> set [CHR '' '', CHR 0x09, CHR 0x0A, CHR 0x0D])"

definition skip_ws :: "string \<Rightarrow> string" where
  "skip_ws s = dropWhile is_json_ws s"












section \<open>The normalizer: \<^verbatim>\<open>parse_comfyui_metadata\<close>\<close>

text \<open>The dictionary \<^verbatim>\<open>result\<close> of lines 159 to 169. The prompts and the sampler hold
  whatever value the graph gave (line 203 assigns \<^verbatim>\<open>text_content\<close> as it is), the seed
  and the steps what \<^verbatim>\<open>int\<close> returned, the guidance scale what \<^verbatim>\<open>float\<close>
  returned.\<close>

record extraction_result =
  positive_prompt :: pyval
  negative_prompt :: pyval
  seed :: int
  steps :: int
  cfg :: pyfloat
  sampler :: pyval
  scheduler :: pyval
  metadata_json :: string
  file_info :: string

definition initial_result :: extraction_result where
  "initial_result =
     \<lparr> positive_prompt = PStr [], negative_prompt = PStr [], seed = 0, steps = 0,
       cfg = Finite 0, sampler = PStr [], scheduler = PStr [],
       metadata_json = ''{}'', file_info = [] \<rparr>"

text \<open>What the node scan changes: the result, and the two flags of lines 187 and 188.\<close>

record scan_state =
  result :: extraction_result
  positive_found :: bool
  negative_found :: bool

text \<open>A statement ends normally or raises; either way the state is what the
  assignments made of it so far.\<close>

datatype 'a outcome = Normal 'a | Raised pyexc 'a

definition and_then :: "'a outcome \<Rightarrow> ('a \<Rightarrow> 'a outcome) \<Rightarrow> 'a outcome" where
  "and_then m f = (case m of Normal s \<Rightarrow> f s | Raised e s \<Rightarrow> Raised e s)"

subsection \<open>Graph selection (lines 173 to 178)\<close>

definition select_prompt_data :: "pydict \<Rightarrow> pyval" where
  "select_prompt_data metadata =
     (case map_of metadata ''prompt'' of
        Some v \<Rightarrow> v
      | None \<Rightarrow>
          (case map_of metadata ''comment'' of
             Some (PDict d) \<Rightarrow> PDict d
           | _ \<Rightarrow> PNone))"

subsection \<open>The rules of one node (lines 192 to 240)\<close>

text \<open>Lines 199 to 209.\<close>

definition extract_prompts :: "pyval \<Rightarrow> pyval \<Rightarrow> scan_state \<Rightarrow> scan_state outcome" where
  "extract_prompts class_type inputs st =
     (if class_type \<in> set [PStr ''CLIPTextEncode'', PStr ''CLIPTextEncodeSDXL'',
                             PStr ''CLIPTextEncodeFlux''] then
        (case py_get inputs ''text'' (PStr []) of
           Inl e \<Rightarrow> Raised e st
         | Inr text_content \<Rightarrow>
             if truthy text_content then
               if \<not> positive_found st then
                 Normal (st\<lparr>result := (result st)\<lparr>positive_prompt := text_content\<rparr>,
                             positive_found := True\<rparr>)
               else if \<not> negative_found st then
                 Normal (st\<lparr>result := (result st)\<lparr>negative_prompt := text_content\<rparr>,
                             negative_found := True\<rparr>)
               else Normal st
             else Normal st)
      else Normal st)"

text \<open>Lines 218 to 221: the guarded \<^verbatim>\<open>int(inputs['noise_seed'][0])\<close>, whose handler
  catches everything and passes.\<close>

definition seed_from_first :: "pyval \<Rightarrow> scan_state \<Rightarrow> scan_state" where
  "seed_from_first inputs st =
     (case py_getitem inputs ''noise_seed'' of
        Inl e \<Rightarrow> st
      | Inr v \<Rightarrow>
          (case py_first v of
             Inl e \<Rightarrow> st
           | Inr x \<Rightarrow>
               (case py_int x of
                  Inl e \<Rightarrow> st
                | Inr n \<Rightarrow> st\<lparr>result := (result st)\<lparr>seed := n\<rparr>\<rparr>)))"

text \<open>Lines 212 to 221.\<close>

definition extract_seed :: "pyval \<Rightarrow> pyval \<Rightarrow> scan_state \<Rightarrow> scan_state outcome" where
  "extract_seed class_type inputs st =
     (if class_type = PStr ''RandomNoise'' then
        (case py_contains inputs ''noise_seed'' of
           Inl e \<Rightarrow> Raised e st
         | Inr True \<Rightarrow>
             (case py_getitem inputs ''noise_seed'' of
                Inl e \<Rightarrow> Raised e st
              | Inr v \<Rightarrow>
                  (case py_int v of
                     Inl e \<Rightarrow> Raised e st
                   | Inr n \<Rightarrow> Normal (st\<lparr>result := (result st)\<lparr>seed := n\<rparr>\<rparr>)))
         | Inr False \<Rightarrow>
             (case py_get inputs ''noise_seed'' PNone of
                Inl e \<Rightarrow> Raised e st
              | Inr v \<Rightarrow>
                  (case v of
                     PList xs \<Rightarrow> Normal (seed_from_first inputs st)
                   | _ \<Rightarrow> Normal st)))
      else Normal st)"

text \<open>Lines 224 to 228.\<close>

definition extract_sampler :: "pyval \<Rightarrow> pyval \<Rightarrow> scan_state \<Rightarrow> scan_state outcome" where
  "extract_sampler class_type inputs st =
     (if class_type = PStr ''KSamplerSelect'' then
        (case py_get inputs ''sampler_name'' (PStr []) of
           Inl e \<Rightarrow> Raised e st
         | Inr sampler_name \<Rightarrow>
             if truthy sampler_name
             then Normal (st\<lparr>result := (result st)\<lparr>sampler := sampler_name\<rparr>\<rparr>)
             else Normal st)
      else Normal st)"

text \<open>Lines 231 to 234.\<close>

definition extract_steps :: "pyval \<Rightarrow> pyval \<Rightarrow> scan_state \<Rightarrow> scan_state outcome" where
  "extract_steps class_type inputs st =
     (if class_type \<in> set [PStr ''LTXVScheduler'', PStr ''BasicScheduler'', PStr ''KScheduler''] then
        (case py_contains inputs ''steps'' of
           Inl e \<Rightarrow> Raised e st
         | Inr True \<Rightarrow>
             (case py_getitem inputs ''steps'' of
                Inl e \<Rightarrow> Raised e st
              | Inr v \<Rightarrow>
                  (case py_int v of
                     Inl e \<Rightarrow> Raised e st
                   | Inr n \<Rightarrow> Normal (st\<lparr>result := (result st)\<lparr>steps := n\<rparr>\<rparr>)))
         | Inr False \<Rightarrow> Normal st)
      else Normal st)"

text \<open>Lines 237 to 240.\<close>

definition extract_cfg :: "pyval \<Rightarrow> pyval \<Rightarrow> scan_state \<Rightarrow> scan_state outcome" where
  "extract_cfg class_type inputs st =
     (if class_type \<in> set [PStr ''CFGGuider'', PStr ''DualCFGGuider''] then
        (case py_contains inputs ''cfg'' of
           Inl e \<Rightarrow> Raised e st
         | Inr True \<Rightarrow>
             (case py_getitem inputs ''cfg'' of
                Inl e \<Rightarrow> Raised e st
              | Inr v \<Rightarrow>
                  (case py_float v of
                     Inl e \<Rightarrow> Raised e st
                   | Inr x \<Rightarrow> Normal (st\<lparr>result := (result st)\<lparr>cfg := x\<rparr>\<rparr>)))
         | Inr False \<Rightarrow> Normal st)
      else Normal st)"

text \<open>Lines 195 and 196: \<^verbatim>\<open>inputs\<close> and \<^verbatim>\<open>class_type\<close> of a node, with their
  defaults.\<close>

definition node_inputs :: "pydict \<Rightarrow> pyval" where
  "node_inputs nd = (case map_of nd ''inputs'' of None \<Rightarrow> PDict [] | Some v \<Rightarrow> v)"

definition node_class_type :: "pydict \<Rightarrow> pyval" where
  "node_class_type nd = (case map_of nd ''class_type'' of None \<Rightarrow> PStr [] | Some v \<Rightarrow> v)"

text \<open>The body of the loop: a node that is not a dictionary is skipped (line 192); on
  the others the five rules run in the order of the source.\<close>

definition process_node :: "scan_state \<Rightarrow> pyval \<Rightarrow> scan_state outcome" where
  "process_node st node_data =
     (case node_data of
        PDict nd \<Rightarrow>
          (let inputs = node_inputs nd;
               class_type = node_class_type nd
           in and_then (and_then (and_then (and_then
                (extract_prompts class_type inputs st)
                (extract_seed class_type inputs))
                (extract_sampler class_type inputs))
                (extract_steps class_type inputs))
                (extract_cfg class_type inputs))
      | _ \<Rightarrow> Normal st)"

text \<open>The loop of line 191, over the items in their order: an exception ends it.\<close>

fun scan_nodes :: "scan_state \<Rightarrow> pydict \<Rightarrow> scan_state outcome" where
  "scan_nodes st [] = Normal st"
| "scan_nodes st (node # rest) =
     (case process_node st (snd node) of
        Normal st' \<Rightarrow> scan_nodes st' rest
      | Raised e st' \<Rightarrow> Raised e st')"

subsection \<open>The file information (lines 246 to 254)\<close>

definition width_height_part :: "pydict \<Rightarrow> pyexc + string list" where
  "width_height_part metadata =
     (case map_of metadata ''video_width'' of
        None \<Rightarrow> Inr []
      | Some w \<Rightarrow>
          (case map_of metadata ''video_height'' of
             None \<Rightarrow> Inl KeyError
           | Some h \<Rightarrow> Inr [py_str w @ ''x'' @ py_str h]))"

definition fps_part :: "pydict \<Rightarrow> pyexc + string list" where
  "fps_part metadata =
     (case map_of metadata ''video_fps'' of
        None \<Rightarrow> Inr []
      | Some f \<Rightarrow> (case py_format_2f f of Inl e \<Rightarrow> Inl e | Inr s \<Rightarrow> Inr [s @ '' FPS'']))"

definition duration_part :: "pydict \<Rightarrow> pyexc + string list" where
  "duration_part metadata =
     (case map_of metadata ''video_duration'' of
        None \<Rightarrow> Inr []
      | Some d \<Rightarrow> (case py_format_2f d of Inl e \<Rightarrow> Inl e | Inr s \<Rightarrow> Inr [s @ ''s'']))"

definition info_parts :: "pydict \<Rightarrow> pyexc + string list" where
  "info_parts metadata =
     (case width_height_part metadata of
        Inl e \<Rightarrow> Inl e
      | Inr a \<Rightarrow>
          (case fps_part metadata of
             Inl e \<Rightarrow> Inl e
           | Inr b \<Rightarrow>
               (case duration_part metadata of
                  Inl e \<Rightarrow> Inl e
                | Inr c \<Rightarrow> Inr (a @ b @ c))))"

subsection \<open>The guarded block and the function\<close>

text \<open>Lines 242 to 254, after a scan that ended normally.\<close>

definition store_and_describe :: "pydict \<Rightarrow> extraction_result \<Rightarrow> extraction_result outcome" where
  "store_and_describe metadata r =
     (let r1 = r\<lparr>metadata_json := json_dumps metadata\<rparr>
      in case info_parts metadata of
           Inl e \<Rightarrow> Raised e r1
         | Inr parts \<Rightarrow>
             Normal (r1\<lparr>file_info := (if parts \<noteq> [] then str_join '' | '' parts
                                        else ''PNG Image'')\<rparr>))"

text \<open>The block of lines 172 to 254. \<open>Normal\<close> is either return, of line 182 or of the
  end of the block. Line 184 takes the length of the graph for the log and line 191 its
  items: each raises on a value that has none.\<close>

definition start_state :: "extraction_result \<Rightarrow> scan_state" where
  "start_state r = \<lparr> result = r, positive_found = False, negative_found = False \<rparr>"

definition try_block :: "pydict \<Rightarrow> extraction_result \<Rightarrow> extraction_result outcome" where
  "try_block metadata r =
     (let prompt_data = select_prompt_data metadata
      in if \<not> truthy prompt_data then Normal (r\<lparr>metadata_json := json_dumps metadata\<rparr>)
         else
           (case py_len prompt_data of
              Inl e \<Rightarrow> Raised e r
            | Inr n \<Rightarrow>
                (case py_items prompt_data of
                   Inl e \<Rightarrow> Raised e r
                 | Inr nodes \<Rightarrow>
                     (case scan_nodes (start_state r) nodes of
                        Raised e st \<Rightarrow> Raised e (result st)
                      | Normal st \<Rightarrow> store_and_describe metadata (result st)))))"

text \<open>What the caller gets: the result, or an exception that has left the function.
  The handler of line 256 takes what derives from \<^verbatim>\<open>Exception\<close>, logs it, and line 261
  returns the result as it stands.\<close>

datatype 'a returned = Return 'a | Propagate pyexc

definition parse_comfyui_metadata :: "pydict \<Rightarrow> extraction_result returned" where
  "parse_comfyui_metadata metadata =
     (case try_block metadata initial_result of
        Normal r \<Rightarrow> Return r
      | Raised e r \<Rightarrow> if is_Exception e then Return r else Propagate e)"

section \<open>The vocabulary of the properties\<close>

text \<open>The class types some rule of the scan looks for.\<close>

definition recognized_classes :: "pyval list" where
  "recognized_classes =
     [PStr ''CLIPTextEncode'', PStr ''CLIPTextEncodeSDXL'', PStr ''CLIPTextEncodeFlux'',
      PStr ''RandomNoise'', PStr ''KSamplerSelect'',
      PStr ''LTXVScheduler'', PStr ''BasicScheduler'', PStr ''KScheduler'',
      PStr ''CFGGuider'', PStr ''DualCFGGuider'']"





definition outcome_state :: "'a outcome \<Rightarrow> 'a" where
  "outcome_state m = (case m of Normal s \<Rightarrow> s | Raised e s \<Rightarrow> s)"











text \<open>A node as the graphs write it.\<close>

definition graph_node :: "string \<Rightarrow> pydict \<Rightarrow> pyval" where
  "graph_node class_type inputs = PDict [(''class_type'', PStr class_type), (''inputs'', PDict inputs)]"

lemma py_get_exc: "py_get v k d = Inl e \<Longrightarrow> is_Exception e"
  by (cases v) auto

lemma py_contains_exc: "py_contains v k = Inl e \<Longrightarrow> is_Exception e"
  by (cases v) auto

lemma py_getitem_exc: "py_getitem v k = Inl e \<Longrightarrow> is_Exception e"
  by (cases v) (auto split: option.splits)

lemma py_int_exc: "py_int v = Inl e \<Longrightarrow> is_Exception e"
  by (cases v) (auto split: option.splits pyfloat.splits)

lemma float_of_int_exc: "float_of_int n = Inl e \<Longrightarrow> is_Exception e"
  by (auto simp: float_of_int_def split: pyfloat.splits)

lemma py_float_exc: "py_float v = Inl e \<Longrightarrow> is_Exception e"
  by (cases v) (auto split: option.splits dest: float_of_int_exc)

lemma py_format_2f_exc: "py_format_2f v = Inl e \<Longrightarrow> is_Exception e"
  by (cases v) (auto split: sum.splits dest: float_of_int_exc)

lemma py_len_exc: "py_len v = Inl e \<Longrightarrow> is_Exception e"
  by (cases v) auto

lemma py_items_exc: "py_items v = Inl e \<Longrightarrow> is_Exception e"
  by (cases v) auto

lemma extract_prompts_Raised:
  "extract_prompts c i st = Raised e st' \<Longrightarrow> st' = st \<and> is_Exception e"
  by (auto simp: extract_prompts_def split: if_splits sum.splits dest: py_get_exc)

lemma extract_seed_Raised:
  "extract_seed c i st = Raised e st' \<Longrightarrow> st' = st \<and> is_Exception e"
  by (auto simp: extract_seed_def split: if_splits sum.splits bool.splits pyval.splits
      dest: py_get_exc py_contains_exc py_getitem_exc py_int_exc)

lemma extract_sampler_Raised:
  "extract_sampler c i st = Raised e st' \<Longrightarrow> st' = st \<and> is_Exception e"
  by (auto simp: extract_sampler_def split: if_splits sum.splits dest: py_get_exc)

lemma extract_steps_Raised:
  "extract_steps c i st = Raised e st' \<Longrightarrow> st' = st \<and> is_Exception e"
  by (auto simp: extract_steps_def split: if_splits sum.splits bool.splits
      dest: py_contains_exc py_getitem_exc py_int_exc)

lemma extract_cfg_Raised:
  "extract_cfg c i st = Raised e st' \<Longrightarrow> st' = st \<and> is_Exception e"
  by (auto simp: extract_cfg_def split: if_splits sum.splits bool.splits
      dest: py_contains_exc py_getitem_exc py_float_exc)

lemma and_then_Normal: "and_then m Normal = m"
  by (cases m) (simp_all add: and_then_def)

lemma and_then_left: "and_then (Normal s) f = f s"
  by (simp add: and_then_def)

lemma extract_prompts_other:
  "c \<notin> set [PStr ''CLIPTextEncode'', PStr ''CLIPTextEncodeSDXL'', PStr ''CLIPTextEncodeFlux'']
   \<Longrightarrow> extract_prompts c i = Normal"
  by (rule ext) (simp add: extract_prompts_def)

lemma extract_seed_other: "c \<noteq> PStr ''RandomNoise'' \<Longrightarrow> extract_seed c i = Normal"
  by (rule ext) (simp add: extract_seed_def)

lemma extract_sampler_other: "c \<noteq> PStr ''KSamplerSelect'' \<Longrightarrow> extract_sampler c i = Normal"
  by (rule ext) (simp add: extract_sampler_def)

lemma extract_steps_other:
  "c \<notin> set [PStr ''LTXVScheduler'', PStr ''BasicScheduler'', PStr ''KScheduler'']
   \<Longrightarrow> extract_steps c i = Normal"
  by (rule ext) (simp add: extract_steps_def)

lemma extract_cfg_other:
  "c \<notin> set [PStr ''CFGGuider'', PStr ''DualCFGGuider''] \<Longrightarrow> extract_cfg c i = Normal"
  by (rule ext) (simp add: extract_cfg_def)

text \<open>At most one rule fires on a node: the class types of the five rules are disjoint.\<close>

lemma process_node_dispatch:
  "process_node st (PDict nd) =
     (let c = node_class_type nd; i = node_inputs nd
      in if c \<in> set [PStr ''CLIPTextEncode'', PStr ''CLIPTextEncodeSDXL'', PStr ''CLIPTextEncodeFlux'']
           then extract_prompts c i st
         else if c = PStr ''RandomNoise'' then extract_seed c i st
         else if c = PStr ''KSamplerSelect'' then extract_sampler c i st
         else if c \<in> set [PStr ''LTXVScheduler'', PStr ''BasicScheduler'', PStr ''KScheduler'']
           then extract_steps c i st
         else if c \<in> set [PStr ''CFGGuider'', PStr ''DualCFGGuider''] then extract_cfg c i st
         else Normal st)"
proof -
  let ?c = "node_class_type nd" and ?i = "node_inputs nd"
  have P: "process_node st (PDict nd) =
      and_then (and_then (and_then (and_then (extract_prompts ?c ?i st) (extract_seed ?c ?i))
        (extract_sampler ?c ?i)) (extract_steps ?c ?i)) (extract_cfg ?c ?i)"
    by (simp add: process_node_def Let_def)
  consider
      (enc) "?c \<in> set [PStr ''CLIPTextEncode'', PStr ''CLIPTextEncodeSDXL'', PStr ''CLIPTextEncodeFlux'']"
    | (noise) "?c = PStr ''RandomNoise''"
    | (sampler) "?c = PStr ''KSamplerSelect''"
    | (sched) "?c \<in> set [PStr ''LTXVScheduler'', PStr ''BasicScheduler'', PStr ''KScheduler'']"
    | (guider) "?c \<in> set [PStr ''CFGGuider'', PStr ''DualCFGGuider'']"
    | (other) "?c \<notin> set recognized_classes"
    by (auto simp: recognized_classes_def)
  then show ?thesis
  proof cases
    case enc
    then have "extract_seed ?c ?i = Normal" "extract_sampler ?c ?i = Normal"
      "extract_steps ?c ?i = Normal" "extract_cfg ?c ?i = Normal"
      by (auto intro!: extract_seed_other extract_sampler_other extract_steps_other extract_cfg_other)
    with enc show ?thesis by (simp add: P and_then_Normal Let_def)
  next
    case noise
    then have "extract_prompts ?c ?i = Normal" "extract_sampler ?c ?i = Normal"
      "extract_steps ?c ?i = Normal" "extract_cfg ?c ?i = Normal"
      by (auto intro!: extract_prompts_other extract_sampler_other extract_steps_other extract_cfg_other)
    with noise show ?thesis by (simp add: P and_then_Normal and_then_left Let_def)
  next
    case sampler
    then have "extract_prompts ?c ?i = Normal" "extract_seed ?c ?i = Normal"
      "extract_steps ?c ?i = Normal" "extract_cfg ?c ?i = Normal"
      by (auto intro!: extract_prompts_other extract_seed_other extract_steps_other extract_cfg_other)
    with sampler show ?thesis by (simp add: P and_then_Normal and_then_left Let_def)
  next
    case sched
    then have "extract_prompts ?c ?i = Normal" "extract_seed ?c ?i = Normal"
      "extract_sampler ?c ?i = Normal" "extract_cfg ?c ?i = Normal"
      by (auto intro!: extract_prompts_other extract_seed_other extract_sampler_other extract_cfg_other)
    with sched show ?thesis by (auto simp add: P and_then_Normal and_then_left Let_def)
  next
    case guider
    then have "extract_prompts ?c ?i = Normal" "extract_seed ?c ?i = Normal"
      "extract_sampler ?c ?i = Normal" "extract_steps ?c ?i = Normal"
      by (auto intro!: extract_prompts_other extract_seed_other extract_sampler_other extract_steps_other)
    with guider show ?thesis by (auto simp add: P and_then_Normal and_then_left Let_def)
  next
    case other
    then have "extract_prompts ?c ?i = Normal" "extract_seed ?c ?i = Normal"
      "extract_sampler ?c ?i = Normal" "extract_steps ?c ?i = Normal" "extract_cfg ?c ?i = Normal"
      by (auto simp: recognized_classes_def
          intro!: extract_prompts_other extract_seed_other extract_sampler_other
            extract_steps_other extract_cfg_other)
    with other show ?thesis
      by (auto simp add: P and_then_Normal and_then_left Let_def recognized_classes_def)
  qed
qed

lemma process_node_not_dict: "(\<And>nd. n \<noteq> PDict nd) \<Longrightarrow> process_node st n = Normal st"
  by (cases n) (auto simp: process_node_def)

lemma process_node_Raised:
  "process_node st n = Raised e st' \<Longrightarrow> st' = st \<and> is_Exception e"
proof (cases n)
  case (PDict nd)
  assume "process_node st n = Raised e st'"
  with PDict show ?thesis
    by (auto simp: process_node_dispatch Let_def split: if_splits
        dest: extract_prompts_Raised extract_seed_Raised extract_sampler_Raised
          extract_steps_Raised extract_cfg_Raised)
qed (simp_all add: process_node_def)










subsection \<open>What a rule leaves alone\<close>

lemma seed_same: "\<exists>n. s = s\<lparr>result := (result s)\<lparr>seed := n\<rparr>\<rparr>"
  by (rule exI [of _ "seed (result s)"]) simp

lemma sampler_same: "\<exists>v. s = s\<lparr>result := (result s)\<lparr>sampler := v\<rparr>\<rparr>"
  by (rule exI [of _ "sampler (result s)"]) simp

lemma steps_same: "\<exists>n. s = s\<lparr>result := (result s)\<lparr>steps := n\<rparr>\<rparr>"
  by (rule exI [of _ "steps (result s)"]) simp

lemma cfg_same: "\<exists>x. s = s\<lparr>result := (result s)\<lparr>cfg := x\<rparr>\<rparr>"
  by (rule exI [of _ "cfg (result s)"]) simp

lemma seed_from_first_frame:
  "\<exists>n. seed_from_first i st = st\<lparr>result := (result st)\<lparr>seed := n\<rparr>\<rparr>"
  by (auto simp: seed_from_first_def seed_same split: sum.splits)

lemma extract_seed_Normal:
  "extract_seed c i st = Normal st' \<Longrightarrow> \<exists>n. st' = st\<lparr>result := (result st)\<lparr>seed := n\<rparr>\<rparr>"
  by (auto simp: extract_seed_def seed_same seed_from_first_frame
      split: if_splits sum.splits bool.splits pyval.splits)

lemma extract_sampler_Normal:
  "extract_sampler c i st = Normal st' \<Longrightarrow> \<exists>v. st' = st\<lparr>result := (result st)\<lparr>sampler := v\<rparr>\<rparr>"
  by (auto simp: extract_sampler_def sampler_same split: if_splits sum.splits)

lemma extract_steps_Normal:
  "extract_steps c i st = Normal st' \<Longrightarrow> \<exists>n. st' = st\<lparr>result := (result st)\<lparr>steps := n\<rparr>\<rparr>"
  by (auto simp: extract_steps_def steps_same split: if_splits sum.splits bool.splits)

lemma extract_cfg_Normal:
  "extract_cfg c i st = Normal st' \<Longrightarrow> \<exists>x. st' = st\<lparr>result := (result st)\<lparr>cfg := x\<rparr>\<rparr>"
  by (auto simp: extract_cfg_def cfg_same split: if_splits sum.splits bool.splits)

subsection \<open>The prompts\<close>







subsection \<open>The scan\<close>

lemma scan_append:
  "scan_nodes st (xs @ ys) =
     (case scan_nodes st xs of Normal s \<Rightarrow> scan_nodes s ys | Raised e s \<Rightarrow> Raised e s)"
  by (induction xs arbitrary: st) (auto split: outcome.splits)

lemma scan_Raised_exc: "scan_nodes st g = Raised e st' \<Longrightarrow> is_Exception e"
  by (induction g arbitrary: st) (auto split: outcome.splits dest: process_node_Raised)


lemma extract_prompts_Normal_frame:
  "extract_prompts c i st = Normal st' \<Longrightarrow>
     seed (result st') = seed (result st) \<and> steps (result st') = steps (result st) \<and>
     cfg (result st') = cfg (result st) \<and> sampler (result st') = sampler (result st) \<and>
     scheduler (result st') = scheduler (result st) \<and>
     metadata_json (result st') = metadata_json (result st) \<and>
     file_info (result st') = file_info (result st)"
  by (auto simp: extract_prompts_def split: if_splits sum.splits)

lemma process_node_frame:
  assumes "process_node st n = Normal st'"
  shows "scheduler (result st') = scheduler (result st) \<and>
         metadata_json (result st') = metadata_json (result st) \<and>
         file_info (result st') = file_info (result st)"
proof (cases n)
  case (PDict nd)
  let ?c = "node_class_type nd" and ?i = "node_inputs nd"
  from assms PDict have
    "extract_prompts ?c ?i st = Normal st' \<or> extract_seed ?c ?i st = Normal st' \<or>
     extract_sampler ?c ?i st = Normal st' \<or> extract_steps ?c ?i st = Normal st' \<or>
     extract_cfg ?c ?i st = Normal st' \<or> st' = st"
    by (auto simp: process_node_dispatch Let_def split: if_splits)
  then show ?thesis
    by (auto dest!: extract_prompts_Normal_frame extract_seed_Normal extract_sampler_Normal
        extract_steps_Normal extract_cfg_Normal)
qed (use assms in \<open>auto simp: process_node_def\<close>)

lemma scan_frame:
  "outcome_state (scan_nodes st g) = st' \<Longrightarrow>
     scheduler (result st') = scheduler (result st) \<and>
     metadata_json (result st') = metadata_json (result st) \<and>
     file_info (result st') = file_info (result st)"
proof (induction g arbitrary: st)
  case Nil
  then show ?case by (auto simp: outcome_state_def)
next
  case (Cons x g)
  show ?case
  proof (cases "process_node st (snd x)")
    case (Normal s)
    with Cons.prems have "outcome_state (scan_nodes s g) = st'" by simp
    from Cons.IH [OF this] process_node_frame [OF Normal] show ?thesis by simp
  next
    case (Raised e s)
    with Cons.prems process_node_Raised [OF Raised] show ?thesis
      by (simp add: outcome_state_def)
  qed
qed

subsection \<open>The guarded block\<close>

lemma info_parts_exc: "info_parts md = Inl e \<Longrightarrow> is_Exception e"
  by (auto simp: info_parts_def width_height_part_def fps_part_def duration_part_def
      split: sum.splits option.splits dest: py_format_2f_exc)

lemma store_and_describe_exc: "store_and_describe md r = Raised e r' \<Longrightarrow> is_Exception e"
  by (auto simp: store_and_describe_def Let_def split: sum.splits dest: info_parts_exc)

lemma try_block_exc: "try_block md r = Raised e r' \<Longrightarrow> is_Exception e"
  by (auto simp: try_block_def Let_def split: if_splits sum.splits outcome.splits
      dest: py_len_exc py_items_exc scan_Raised_exc store_and_describe_exc)

lemma parse_Return:
  "parse_comfyui_metadata md = Return (outcome_state (try_block md initial_result))"
  by (auto simp: parse_comfyui_metadata_def outcome_state_def split: outcome.splits
      dest: try_block_exc)

lemma try_block_graph:
  "select_prompt_data md = PDict g \<Longrightarrow>
     try_block md r =
       (if g = [] then Normal (r\<lparr>metadata_json := json_dumps md\<rparr>)
        else (case scan_nodes (start_state r) g of
                Raised e st \<Rightarrow> Raised e (result st)
              | Normal st \<Rightarrow> store_and_describe md (result st)))"
  by (simp add: try_block_def)

lemma store_and_describe_state:
  "outcome_state (store_and_describe md r) =
     (case info_parts md of
        Inl e \<Rightarrow> r\<lparr>metadata_json := json_dumps md\<rparr>
      | Inr parts \<Rightarrow> r\<lparr>metadata_json := json_dumps md,
                        file_info := (if parts \<noteq> [] then str_join '' | '' parts else ''PNG Image'')\<rparr>)"
  by (simp add: store_and_describe_def outcome_state_def Let_def split: sum.splits)

text \<open>The result of the function on a record with a graph, from the scan's last state.\<close>

lemma parse_graph:
  assumes "select_prompt_data md = PDict g"
  shows "parse_comfyui_metadata md =
           Return (if g = [] then initial_result\<lparr>metadata_json := json_dumps md\<rparr>
                   else (case scan_nodes (start_state initial_result) g of
                           Raised e st \<Rightarrow> result st
                         | Normal st \<Rightarrow> outcome_state (store_and_describe md (result st))))"
  by (simp add: parse_Return try_block_graph [OF assms] outcome_state_def split: outcome.splits)

lemma start_result [simp]: "result (start_state r) = r"
  by (simp add: start_state_def)

lemmas run_defs = parse_comfyui_metadata_def try_block_def select_prompt_data_def graph_node_def
  process_node_def node_inputs_def node_class_type_def and_then_def extract_prompts_def
  extract_seed_def extract_sampler_def extract_steps_def extract_cfg_def start_state_def
  store_and_describe_def info_parts_def width_height_part_def fps_part_def duration_part_def
  seed_from_first_def Let_def








lemma store_and_describe_seed [simp]:
  "seed (outcome_state (store_and_describe md r)) = seed r"
  by (simp add: store_and_describe_state split: sum.splits)


lemma store_and_describe_prompts [simp]:
  "positive_prompt (outcome_state (store_and_describe md r)) = positive_prompt r"
  "negative_prompt (outcome_state (store_and_describe md r)) = negative_prompt r"
  by (simp_all add: store_and_describe_state split: sum.splits)



lemmas json_defs = json_dumps_def json_string_def json_char_def newline_indent_def str_join_def
  str_of_int_def hex2_def


subsection \<open>The file information\<close>


subsection \<open>Nodes of no recognized class\<close>

lemma parse_graph_nonempty:
  assumes "select_prompt_data md = PDict g" and "g \<noteq> []"
  shows "parse_comfyui_metadata md =
           Return (case scan_nodes (start_state initial_result) g of
                     Raised e st \<Rightarrow> result st
                   | Normal st \<Rightarrow> outcome_state (store_and_describe md (result st)))"
  using parse_graph [OF assms(1)] assms(2) by simp

lemma unrecognized_skip:
  assumes "\<forall>nd. n = PDict nd \<longrightarrow> node_class_type nd \<notin> set recognized_classes"
  shows "process_node st n = Normal st"
proof (cases n)
  case (PDict nd)
  with assms have "node_class_type nd \<notin> set recognized_classes" by simp
  with PDict show ?thesis
    by (auto simp: process_node_dispatch Let_def recognized_classes_def)
qed (simp_all add: process_node_def)

lemma scan_skip:
  assumes "\<forall>nd. n = PDict nd \<longrightarrow> node_class_type nd \<notin> set recognized_classes"
  shows "scan_nodes st (xs @ (k, n) # ys) = scan_nodes st (xs @ ys)"
  by (simp add: scan_append unrecognized_skip [OF assms] split: outcome.splits)

lemma info_parts_cong:
  assumes "\<forall>k \<in> set [''video_width'', ''video_height'', ''video_fps'', ''video_duration''].
             map_of md' k = map_of md k"
  shows "info_parts md' = info_parts md"
proof -
  from assms have eqs: "width_height_part md' = width_height_part md"
    "fps_part md' = fps_part md" "duration_part md' = duration_part md"
    by (auto simp: width_height_part_def fps_part_def duration_part_def split: option.splits)
  show ?thesis unfolding info_parts_def eqs ..
qed

lemma store_and_describe_fields:
  "positive_prompt (outcome_state (store_and_describe md r)) = positive_prompt r"
  "negative_prompt (outcome_state (store_and_describe md r)) = negative_prompt r"
  "seed (outcome_state (store_and_describe md r)) = seed r"
  "steps (outcome_state (store_and_describe md r)) = steps r"
  "cfg (outcome_state (store_and_describe md r)) = cfg r"
  "sampler (outcome_state (store_and_describe md r)) = sampler r"
  "scheduler (outcome_state (store_and_describe md r)) = scheduler r"
  by (simp_all add: store_and_describe_state split: sum.splits)

lemma store_and_describe_file_info:
  "info_parts md' = info_parts md \<Longrightarrow>
     file_info (outcome_state (store_and_describe md' r)) =
     file_info (outcome_state (store_and_describe md r))"
  by (simp add: store_and_describe_state split: sum.splits)

subsection \<open>Digits\<close>


















subsection \<open>Strings\<close>







lemma json_string_hd: "json_string s = CHR 0x22 # concat (map json_char s) @ [CHR 0x22]"
  by (simp add: json_string_def)

subsection \<open>Values\<close>

lemma skip_ws_indent:
  assumes "s = [] \<or> \<not> is_json_ws (hd s)"
  shows "skip_ws (newline_indent k @ s) = s"
proof -
  have "\<forall>c \<in> set (newline_indent k). is_json_ws c"
    by (auto simp: newline_indent_def is_json_ws_def)
  then have "dropWhile is_json_ws (newline_indent k @ s) = dropWhile is_json_ws s"
    by (simp add: dropWhile_append2)
  also have "\<dots> = s" using assms by (cases s) simp_all
  finally show ?thesis by (simp add: skip_ws_def)
qed

























lemma skip_ws_plain [simp]:
  "skip_ws (CHR '','' # s) = CHR '','' # s" "skip_ws (CHR '':'' # s) = CHR '':'' # s"
  "skip_ws (newline_indent m @ CHR '']'' # s) = CHR '']'' # s"
  "skip_ws (newline_indent m @ CHR ''}'' # s) = CHR ''}'' # s"
  by (simp_all add: skip_ws_indent is_json_ws_def) (simp_all add: skip_ws_def is_json_ws_def)













lemma store_and_describe_json [simp]:
  "metadata_json (outcome_state (store_and_describe md r)) = json_dumps md"
  by (simp add: store_and_describe_state split: sum.splits)



subsection \<open>Floats\<close>























subsection \<open>Doubles\<close>

lemma pow2_powi: "pow2 e = 2 powi e"
  by (simp add: pow2_def power_int_def field_simps)

lemma pow2_pos [simp]: "0 < pow2 e"
  by (simp add: pow2_powi)



lemma pow2_strict_mono: "a < b \<Longrightarrow> pow2 a < pow2 b"
  by (simp add: pow2_powi power_int_strict_increasing)









lemma pow2_nz [simp]: "pow2 e \<noteq> 0"
  by (simp add: pow2_powi)



lemma pow10_pos [simp]: "0 < pow10 e"
  by (simp add: pow10_def)

lemma pow10_nz [simp]: "pow10 e \<noteq> 0"
  using pow10_pos [of e] by (simp del: pow10_pos)



lemma pow2_nonneg [simp]: "0 \<le> pow2 e"
  using pow2_pos [of e] by (simp only: less_imp_le)



lemma pow10_nonneg [simp]: "0 \<le> pow10 e"
  using pow10_pos [of e] by (simp only: less_imp_le)















section \<open>The claims\<close>

text \<open>
  C9. For every record, the \<^verbatim>\<open>scheduler\<close> field of the result is the empty string:
  the function returns a result, and no rule of the scan, nor the steps after it, assigns
  the field.
\<close>

theorem scheduler_never_assigned:
  "\<exists>r. parse_comfyui_metadata md = Return r \<and> scheduler r = PStr []"
proof -
  let ?r = "outcome_state (try_block md initial_result)"
  have "scheduler ?r = PStr []"
  proof (cases "truthy (select_prompt_data md)")
    case False
    then show ?thesis by (simp add: try_block_def outcome_state_def initial_result_def)
  next
    case True
    show ?thesis
    proof (cases "py_len (select_prompt_data md)")
      case (Inl e)
      with True show ?thesis by (simp add: try_block_def outcome_state_def initial_result_def)
    next
      case len: (Inr k)
      show ?thesis
      proof (cases "py_items (select_prompt_data md)")
        case (Inl e)
        with True len show ?thesis
          by (simp add: try_block_def outcome_state_def initial_result_def)
      next
        case (Inr g)
        let ?s = "outcome_state (scan_nodes (start_state initial_result) g)"
        have fr: "scheduler (result ?s) = PStr []"
          using scan_frame [of "start_state initial_result" g ?s]
          by (simp add: initial_result_def)
        show ?thesis
        proof (cases "scan_nodes (start_state initial_result) g")
          case (Raised e s)
          with True len Inr fr show ?thesis by (simp add: try_block_def outcome_state_def)
        next
          case (Normal s)
          with fr have "scheduler (result s) = PStr []" by (simp add: outcome_state_def)
          with True len Inr Normal show ?thesis
            by (simp add: try_block_def store_and_describe_state split: sum.splits)
        qed
      qed
    qed
  qed
  then show ?thesis by (auto simp: parse_Return)
qed

theorem scheduler_never_assigned_witness:
  "\<exists>r. parse_comfyui_metadata
         [(''prompt'', PDict [(''1'', graph_node ''KScheduler'' [(''scheduler'', PStr ''karras''),
                                                              (''steps'', PInt 20)])])] = Return r
       \<and> scheduler r = PStr []"
  using scheduler_never_assigned
    [of "[(''prompt'', PDict [(''1'', graph_node ''KScheduler'' [(''scheduler'', PStr ''karras''),
                                                              (''steps'', PInt 20)])])]"] .



text \<open>
  C4. For a record with no \<^verbatim>\<open>prompt\<close> field whose \<^verbatim>\<open>comment\<close> field is absent or
  not a mapping, the function returns the result of lines 159 to 169 with every field at
  its default but \<^verbatim>\<open>metadata_json\<close>, which is the serialization of the whole record
  with an indent of two.
\<close>

theorem no_graph_defaults:
  assumes "map_of md ''prompt'' = None"
    and "\<And>d. map_of md ''comment'' \<noteq> Some (PDict d)"
  shows "parse_comfyui_metadata md = Return (initial_result\<lparr>metadata_json := json_dumps md\<rparr>)"
proof -
  from assms have "select_prompt_data md = PNone"
    by (auto simp: select_prompt_data_def split: option.splits pyval.splits)
  then show ?thesis
    by (simp add: parse_Return try_block_def outcome_state_def)
qed

theorem no_graph_defaults_witness:
  "parse_comfyui_metadata
     [(''workflow'', PDict [(''last_node_id'', PInt 9)]), (''comment'', PStr ''draft'')]
   = Return (initial_result\<lparr>metadata_json :=
       json_dumps [(''workflow'', PDict [(''last_node_id'', PInt 9)]), (''comment'', PStr ''draft'')]\<rparr>)"
  using no_graph_defaults
    [of "[(''workflow'', PDict [(''last_node_id'', PInt 9)]), (''comment'', PStr ''draft'')]"]
  by simp

text \<open>
  C7. The function returns a result for every record: each exception of the guarded
  block derives from \<^verbatim>\<open>Exception\<close>, so the handler of line 256 catches it and line 261
  returns the result as the block left it. When what fails is the graph itself (a value
  that is not a mapping), every field is at its default.
\<close>

theorem normalize_total:
  "\<exists>r. parse_comfyui_metadata md = Return r
      \<and> (\<forall>e r'. try_block md initial_result = Raised e r' \<longrightarrow> is_Exception e \<and> r = r')
      \<and> (truthy (select_prompt_data md) \<and> (\<forall>g. select_prompt_data md \<noteq> PDict g)
           \<longrightarrow> r = initial_result)"
proof -
  let ?r = "outcome_state (try_block md initial_result)"
  have "\<forall>e r'. try_block md initial_result = Raised e r' \<longrightarrow> is_Exception e \<and> ?r = r'"
    by (auto simp: outcome_state_def dest: try_block_exc)
  moreover have "truthy (select_prompt_data md) \<and> (\<forall>g. select_prompt_data md \<noteq> PDict g)
      \<longrightarrow> ?r = initial_result"
    by (cases "select_prompt_data md") (auto simp: try_block_def outcome_state_def)
  ultimately show ?thesis by (simp add: parse_Return)
qed

theorem normalize_total_witness:
  "\<exists>r. parse_comfyui_metadata [(''prompt'', PStr ''not json'')] = Return r
      \<and> try_block [(''prompt'', PStr ''not json'')] initial_result = Raised AttributeError r
      \<and> r = initial_result"
proof -
  let ?md = "[(''prompt'', PStr ''not json'')]"
  have raised: "try_block ?md initial_result = Raised AttributeError initial_result"
    by (simp add: try_block_def select_prompt_data_def)
  have sel: "truthy (select_prompt_data ?md) \<and> (\<forall>g. select_prompt_data ?md \<noteq> PDict g)"
    by (simp add: select_prompt_data_def)
  from normalize_total [of ?md] obtain r where
    "parse_comfyui_metadata ?md = Return r"
    "\<forall>e r'. try_block ?md initial_result = Raised e r' \<longrightarrow> is_Exception e \<and> r = r'"
    "truthy (select_prompt_data ?md) \<and> (\<forall>g. select_prompt_data ?md \<noteq> PDict g) \<longrightarrow> r = initial_result"
    by blast
  with raised sel show ?thesis by auto
qed














text \<open>
  C8. As amended: for every workflow graph, adding a node whose class type is none of
  the recognized ones (or that is no mapping at all), at any place of the graph, leaves
  \<^verbatim>\<open>positive_prompt\<close>, \<^verbatim>\<open>negative_prompt\<close>, \<^verbatim>\<open>seed\<close>, \<^verbatim>\<open>steps\<close>, \<^verbatim>\<open>cfg\<close>,
  \<^verbatim>\<open>sampler\<close> and \<^verbatim>\<open>scheduler\<close> as they are without it, and \<^verbatim>\<open>file_info\<close> too when
  the graph without the node is not empty. \<^verbatim>\<open>metadata_json\<close> serializes the record it was
  given, so it follows the record.
\<close>

theorem unknown_class_ignored:
  assumes "select_prompt_data md = PDict (xs @ ys)"
    and "select_prompt_data md' = PDict (xs @ (node_id, node_data) # ys)"
    and "\<forall>nd. node_data = PDict nd \<longrightarrow> node_class_type nd \<notin> set recognized_classes"
    and "\<forall>k \<in> set [''video_width'', ''video_height'', ''video_fps'', ''video_duration''].
           map_of md' k = map_of md k"
  shows "\<exists>r r'. parse_comfyui_metadata md = Return r \<and> parse_comfyui_metadata md' = Return r'
           \<and> positive_prompt r' = positive_prompt r \<and> negative_prompt r' = negative_prompt r
           \<and> seed r' = seed r \<and> steps r' = steps r \<and> cfg r' = cfg r
           \<and> sampler r' = sampler r \<and> scheduler r' = scheduler r
           \<and> (xs @ ys \<noteq> [] \<longrightarrow> file_info r' = file_info r)"
proof -
  let ?st0 = "start_state initial_result"
  have same: "scan_nodes ?st0 (xs @ (node_id, node_data) # ys) = scan_nodes ?st0 (xs @ ys)"
    by (rule scan_skip [OF assms(3)])
  have info: "info_parts md' = info_parts md"
    by (rule info_parts_cong [OF assms(4)])
  let ?g = "xs @ ys" and ?g' = "xs @ (node_id, node_data) # ys"
  have g': "?g' \<noteq> []" by simp
  show ?thesis
  proof (cases "?g = []")
    case True
    then have scan': "scan_nodes ?st0 ?g' = Normal ?st0"
      using same by simp
    have "parse_comfyui_metadata md = Return (initial_result\<lparr>metadata_json := json_dumps md\<rparr>)"
      using parse_graph [OF assms(1)] True by simp
    moreover have "parse_comfyui_metadata md' =
        Return (outcome_state (store_and_describe md' initial_result))"
      using parse_graph_nonempty [OF assms(2) g'] scan' by simp
    ultimately show ?thesis using True
      by (simp add: store_and_describe_fields)
  next
    case False
    show ?thesis
    proof (cases "scan_nodes ?st0 ?g")
      case (Normal st)
      have "parse_comfyui_metadata md = Return (outcome_state (store_and_describe md (result st)))"
        using parse_graph_nonempty [OF assms(1) False] Normal by simp
      moreover have "parse_comfyui_metadata md' =
          Return (outcome_state (store_and_describe md' (result st)))"
        using parse_graph_nonempty [OF assms(2) g'] same Normal by simp
      ultimately show ?thesis
        by (simp add: store_and_describe_fields store_and_describe_file_info [OF info])
    next
      case (Raised e st)
      have "parse_comfyui_metadata md = Return (result st)"
        using parse_graph_nonempty [OF assms(1) False] Raised by simp
      moreover have "parse_comfyui_metadata md' = Return (result st)"
        using parse_graph_nonempty [OF assms(2) g'] same Raised by simp
      ultimately show ?thesis by simp
    qed
  qed
qed

theorem unknown_class_ignored_witness:
  "\<exists>r r'. parse_comfyui_metadata
             [(''prompt'', PDict ([(''6'', graph_node ''CLIPTextEncode'' [(''text'', PStr ''a cat'')])]
                @ [(''8'', graph_node ''KSamplerSelect'' [(''sampler_name'', PStr ''euler'')])]))]
           = Return r
     \<and> parse_comfyui_metadata
             [(''prompt'', PDict ([(''6'', graph_node ''CLIPTextEncode'' [(''text'', PStr ''a cat'')])]
                @ (''7'', graph_node ''SaveImage'' [(''steps'', PStr ''abc'')])
                # [(''8'', graph_node ''KSamplerSelect'' [(''sampler_name'', PStr ''euler'')])]))]
           = Return r'
     \<and> positive_prompt r' = positive_prompt r \<and> negative_prompt r' = negative_prompt r
     \<and> seed r' = seed r \<and> steps r' = steps r \<and> cfg r' = cfg r
     \<and> sampler r' = sampler r \<and> scheduler r' = scheduler r
     \<and> file_info r' = file_info r"
proof -
  let ?xs = "[(''6'', graph_node ''CLIPTextEncode'' [(''text'', PStr ''a cat'')])]"
  let ?ys = "[(''8'', graph_node ''KSamplerSelect'' [(''sampler_name'', PStr ''euler'')])]"
  let ?n = "graph_node ''SaveImage'' [(''steps'', PStr ''abc'')]"
  let ?md = "[(''prompt'', PDict (?xs @ ?ys))]"
  let ?md' = "[(''prompt'', PDict (?xs @ (''7'', ?n) # ?ys))]"
  have 1: "select_prompt_data ?md = PDict (?xs @ ?ys)"
    by (simp add: select_prompt_data_def)
  have 2: "select_prompt_data ?md' = PDict (?xs @ (''7'', ?n) # ?ys)"
    by (simp add: select_prompt_data_def)
  have 3: "\<forall>nd. ?n = PDict nd \<longrightarrow> node_class_type nd \<notin> set recognized_classes"
    by (simp add: graph_node_def node_class_type_def recognized_classes_def)
  have 4: "\<forall>k \<in> set [''video_width'', ''video_height'', ''video_fps'', ''video_duration''].
             map_of ?md' k = map_of ?md k"
    by simp
  have 5: "?xs @ ?ys \<noteq> []" by simp
  from unknown_class_ignored [OF 1 2 3 4] 5 show ?thesis by blast
qed

theorem unknown_class_counterexample:
  "(\<exists>r r'. parse_comfyui_metadata [(''prompt'', PDict [])] = Return r
        \<and> parse_comfyui_metadata [(''prompt'', PDict [(''1'', graph_node ''SaveImage'' [])])] = Return r'
        \<and> file_info r = [] \<and> file_info r' = ''PNG Image'')
   \<and> (\<exists>r r'. parse_comfyui_metadata
          [(''prompt'', PDict [(''6'', graph_node ''CLIPTextEncode'' [(''text'', PStr ''a cat'')])])]
          = Return r
        \<and> parse_comfyui_metadata
          [(''prompt'', PDict [(''6'', graph_node ''CLIPTextEncode'' [(''text'', PStr ''a cat'')]),
                               (''7'', graph_node ''SaveImage'' [])])]
          = Return r'
        \<and> metadata_json r \<noteq> metadata_json r')"
  by (simp add: run_defs json_defs initial_result_def)




text \<open>
  X1. The fallback of lines 216 to 221 for a sequence-shaped \<^verbatim>\<open>noise_seed\<close> never
  assigns a seed. It is reached only when \<^verbatim>\<open>'noise_seed' in inputs\<close> is false, and then
  \<^verbatim>\<open>inputs.get('noise_seed')\<close> is \<^verbatim>\<open>None\<close> (or raises, for inputs that are no
  mapping), never a list: the seed rule is the rule of lines 212 to 214 alone.
\<close>

theorem seed_fallback_unreachable:
  "extract_seed class_type inputs st =
     (if class_type = PStr ''RandomNoise'' then
        (case py_contains inputs ''noise_seed'' of
           Inl e \<Rightarrow> Raised e st
         | Inr True \<Rightarrow>
             (case py_getitem inputs ''noise_seed'' of
                Inl e \<Rightarrow> Raised e st
              | Inr v \<Rightarrow>
                  (case py_int v of
                     Inl e \<Rightarrow> Raised e st
                   | Inr n \<Rightarrow> Normal (st\<lparr>result := (result st)\<lparr>seed := n\<rparr>\<rparr>)))
         | Inr False \<Rightarrow>
             (case py_get inputs ''noise_seed'' PNone of
                Inl e \<Rightarrow> Raised e st
              | Inr v \<Rightarrow> Normal st))
      else Normal st)"
proof (cases inputs)
  case (PDict kvs)
  then show ?thesis
    by (cases "map_of kvs ''noise_seed''") (simp_all add: extract_seed_def)
qed (simp_all add: extract_seed_def split: bool.splits)


end
